theory Spec2Isabelle
  imports Complex_Main
begin

section \<open>Values of the JavaScript runtime\<close>

text \<open>
  The server registers six tools (greet, calc, now, geocode, get-weather, generate-image)
  twice: in \<^verbatim>\<open>src/index.ts\<close> for the stdio transport and in
  \<^verbatim>\<open>app/api/[transport]/route.ts\<close> for the HTTP transport. Every handler is an
  \<^verbatim>\<open>async\<close> function from validated arguments to an object with a \<^verbatim>\<open>content\<close> array.

  A JavaScript string is modelled by the bytes of its UTF-8 encoding, so the Korean,
  Japanese, Chinese and emoji literals of the source appear as byte lists, one bracket
  per code point.

  A JavaScript number is an IEEE double. Every finite double is a rational number, and
  the comparisons the program makes (\<^verbatim>\<open>b === 0\<close>, the bounds of a schema, a key of the
  weather table) are exact, so a finite double is modelled by its rational value; both
  zeros are \<open>Finite 0\<close> (the program cannot tell them apart: \<^verbatim>\<open>-0 === 0\<close>, and both print
  as \<^verbatim>\<open>0\<close>). Rounding arithmetic and the printing of a number belong to the engine and
  are taken from the \<open>runtime\<close> record below.
\<close>

datatype number = Finite rat | PosInfinity | NegInfinity | NaN

text \<open>
  A thrown value. The catch blocks only ask whether it is an instance of \<^verbatim>\<open>Error\<close> and, if
  so, read its \<^verbatim>\<open>message\<close>.
\<close>

datatype thrown = Error string | NonError

text \<open>A content item is tagged \<^verbatim>\<open>text\<close> or \<^verbatim>\<open>image\<close> (\<open>Image_item\<close>: data, mimeType).\<close>

datatype content_item = Text string | Image_item string string

text \<open>
  What a handler returns. \<^verbatim>\<open>index.ts\<close> adds \<^verbatim>\<open>structuredContent: { content: [...] }\<close> on
  its success paths; \<open>structuredContent\<close> holds that inner array.
\<close>

record tool_result =
  content :: "content_item list"
  structuredContent :: "content_item list option"

datatype entry_point = Index | Route

definition text_result :: "string \<Rightarrow> tool_result" where
  "text_result text = \<lparr>content = [Text text], structuredContent = None\<rparr>"

text \<open>
  The success return of a text tool: both files return \<^verbatim>\<open>content: [{type: 'text', text}]\<close>,
  and \<^verbatim>\<open>index.ts\<close> repeats the array under \<^verbatim>\<open>structuredContent\<close>.
\<close>

definition success :: "entry_point \<Rightarrow> string \<Rightarrow> tool_result" where
  "success e text =
     (case e of
        Index \<Rightarrow> \<lparr>content = [Text text], structuredContent = Some [Text text]\<rparr>
      | Route \<Rightarrow> \<lparr>content = [Text text], structuredContent = None\<rparr>)"

section \<open>Effects: exceptions and outbound calls\<close>

record image_request =
  provider :: string
  model :: string
  inputs :: string
  num_inference_steps :: number

text \<open>
  An outbound call: \<^verbatim>\<open>fetch(url, {headers})\<close>, or \<^verbatim>\<open>textToImage\<close> on an
  \<^verbatim>\<open>InferenceClient\<close> built from a token.
\<close>

datatype outbound = Fetch string "(string \<times> string) list" | TextToImage string image_request

text \<open>
  A computation either returns a value (\<open>Inr\<close>) or throws (\<open>Inl\<close>), and records the
  outbound calls it made, in order.
\<close>

type_synonym 'a eff = "(thrown + 'a) \<times> outbound list"

definition ret :: "'a \<Rightarrow> 'a eff" where
  "ret x = (Inr x, [])"

definition throw :: "thrown \<Rightarrow> 'a eff" where
  "throw e = (Inl e, [])"

text \<open>A call of the engine that may throw and reaches nothing outside the process.\<close>

definition lift :: "thrown + 'a \<Rightarrow> 'a eff" where
  "lift r = (r, [])"

text \<open>An awaited outbound call: it is recorded, and its outcome is the mocked upstream's.\<close>

definition call :: "outbound \<Rightarrow> thrown + 'a \<Rightarrow> 'a eff" where
  "call request outcome = (outcome, [request])"

definition and_then :: "'a eff \<Rightarrow> ('a \<Rightarrow> 'b eff) \<Rightarrow> 'b eff" where
  "and_then m f =
     (case m of
        (Inl e, calls) \<Rightarrow> (Inl e, calls)
      | (Inr x, calls) \<Rightarrow> (case f x of (r, calls') \<Rightarrow> (r, calls @ calls')))"

text \<open>\<^verbatim>\<open>try { m } catch (error) { h(error) }\<close>\<close>

definition try_catch :: "'a eff \<Rightarrow> (thrown \<Rightarrow> 'a eff) \<Rightarrow> 'a eff" where
  "try_catch m h =
     (case m of
        (Inl e, calls) \<Rightarrow> (case h e of (r, calls') \<Rightarrow> (r, calls @ calls'))
      | (Inr x, calls) \<Rightarrow> (Inr x, calls))"

text \<open>
  \<^verbatim>\<open>error instanceof Error ? error.message : '...'\<close>, the same expression in the three
  catch blocks; the fallback literal reads "unknown error".
\<close>

definition catch_message :: "thrown \<Rightarrow> string" where
  "catch_message error =
     (case error of
        Error message \<Rightarrow> message
      | NonError \<Rightarrow> [CHR 0xEC, CHR 0x95, CHR 0x8C] @ '' ''
        @ [CHR 0xEC, CHR 0x88, CHR 0x98] @ '' '' @ [CHR 0xEC, CHR 0x97, CHR 0x86]
        @ [CHR 0xEB, CHR 0x8A, CHR 0x94] @ '' '' @ [CHR 0xEC, CHR 0x98, CHR 0xA4]
        @ [CHR 0xEB, CHR 0xA5, CHR 0x98])"

section \<open>The engine and the world outside\<close>

datatype field_style = Numeric | TwoDigit

text \<open>The options object the clock handler passes to \<^verbatim>\<open>toLocaleString\<close>.\<close>

record date_options =
  timeZone :: string
  year :: field_style
  month :: field_style
  day :: field_style
  hour :: field_style
  minute :: field_style
  second :: field_style
  hour12 :: bool

text \<open>
  What the handlers use of the engine, as deterministic functions: IEEE arithmetic,
  \<^verbatim>\<open>Number::toString\<close> (a number in a template literal), \<^verbatim>\<open>Date.prototype.toLocaleString\<close>
  (instant in epoch milliseconds, locale, options; it throws a \<^verbatim>\<open>RangeError\<close> on an unknown
  time zone), \<^verbatim>\<open>encodeURIComponent\<close> (it throws a \<^verbatim>\<open>URIError\<close> on a lone surrogate) and
  \<^verbatim>\<open>Buffer.from(bytes).toString('base64')\<close>.
\<close>

record runtime =
  num_add :: "number \<Rightarrow> number \<Rightarrow> number"
  num_sub :: "number \<Rightarrow> number \<Rightarrow> number"
  num_mul :: "number \<Rightarrow> number \<Rightarrow> number"
  num_div :: "number \<Rightarrow> number \<Rightarrow> number"
  num_to_string :: "number \<Rightarrow> string"
  toLocaleString :: "int \<Rightarrow> string \<Rightarrow> date_options \<Rightarrow> thrown + string"
  encodeURIComponent :: "string \<Rightarrow> thrown + string"
  base64 :: "string \<Rightarrow> string"

text \<open>
  An HTTP response: its status, and what \<^verbatim>\<open>await response.json()\<close> gives (a rejection on
  an unparseable body). The parsed body is taken at the type the source casts it to.
\<close>

record 'a response =
  status :: nat
  json :: "thrown + 'a"

text \<open>\<^verbatim>\<open>response.ok\<close>: the status is in the range 200-299.\<close>

definition ok :: "'a response \<Rightarrow> bool" where
  "ok response = (200 \<le> status response \<and> status response \<le> 299)"

text \<open>
  One record of the geocoding service, as the source casts it:
  \<^verbatim>\<open>Array<{display_name: string, lat: string, lon: string}>\<close>.
\<close>

record geo_record =
  display_name :: string
  lat :: string
  lon :: string

text \<open>
  The forecast service's body, as the source casts it. The fields are prefixed with the
  names of the handler's local variables (\<^verbatim>\<open>data\<close>, \<^verbatim>\<open>c\<close>, \<^verbatim>\<open>cu\<close>, \<^verbatim>\<open>d\<close>, \<^verbatim>\<open>du\<close>).
\<close>

record forecast_current =
  c_time :: string
  c_temperature_2m :: number
  c_relative_humidity_2m :: number
  c_apparent_temperature :: number
  c_weather_code :: number
  c_wind_speed_10m :: number
  c_wind_direction_10m :: number
  c_precipitation :: number

record forecast_current_units =
  cu_temperature_2m :: string
  cu_relative_humidity_2m :: string
  cu_apparent_temperature :: string
  cu_wind_speed_10m :: string
  cu_precipitation :: string

record forecast_daily =
  d_time :: "string list"
  d_weather_code :: "number list"
  d_temperature_2m_max :: "number list"
  d_temperature_2m_min :: "number list"
  d_precipitation_sum :: "number list"
  d_precipitation_probability_max :: "number list"
  d_wind_speed_10m_max :: "number list"

record forecast_daily_units =
  du_temperature_2m_max :: string
  du_precipitation_sum :: string
  du_wind_speed_10m_max :: string

record forecast_data =
  data_timezone :: string
  data_current :: forecast_current
  data_current_units :: forecast_current_units
  data_daily :: forecast_daily
  data_daily_units :: forecast_daily_units

text \<open>
  The world a handler runs in: the instant \<^verbatim>\<open>new Date()\<close> reads (epoch milliseconds),
  \<^verbatim>\<open>process.env.HF_TOKEN\<close>, and the mocked upstream services, each a function from the
  request to its outcome (\<open>Inl\<close>: the call rejects, as \<^verbatim>\<open>fetch\<close> does on a network
  failure). The geocoding body is \<open>None\<close> when it parses to \<^verbatim>\<open>null\<close>, which the handler
  tests with \<^verbatim>\<open>!data\<close>. \<open>textToImage\<close> resolves to the bytes of the image blob.
\<close>

record world =
  clock :: int
  HF_TOKEN :: "string option"
  fetch_geocode :: "string \<Rightarrow> (string \<times> string) list \<Rightarrow> thrown + geo_record list option response"
  fetch_forecast :: "string \<Rightarrow> (string \<times> string) list \<Rightarrow> thrown + forecast_data response"
  textToImage :: "string \<Rightarrow> image_request \<Rightarrow> thrown + string"

section \<open>greet\<close>

datatype language = Ko | En | Ja | Zh | Es | Fr | De

text \<open>
  The table \<^verbatim>\<open>greetings\<close> (index.ts 36-44, route.ts 22-30), with \<^verbatim>\<open>name\<close> substituted as
  it is. The handler reads \<^verbatim>\<open>greetings[language] ?? greetings['en']\<close>; the table has an entry
  for each of the seven languages of the enum, so the fallback is never taken.
\<close>

fun greetings :: "string \<Rightarrow> language \<Rightarrow> string" where
  "greetings name Ko = [CHR 0xEC, CHR 0x95, CHR 0x88] @ [CHR 0xEB, CHR 0x85, CHR 0x95]
    @ [CHR 0xED, CHR 0x95, CHR 0x98] @ [CHR 0xEC, CHR 0x84, CHR 0xB8]
    @ [CHR 0xEC, CHR 0x9A, CHR 0x94] @ '', '' @ name @ [CHR 0xEB, CHR 0x8B, CHR 0x98] @ ''!''"
| "greetings name En = ''Hey there, '' @ name @ ''! ''
  @ [CHR 0xF0, CHR 0x9F, CHR 0x91, CHR 0x8B] @ '' Nice to meet you!''"
| "greetings name Ja = [CHR 0xE3, CHR 0x81, CHR 0x93] @ [CHR 0xE3, CHR 0x82, CHR 0x93]
  @ [CHR 0xE3, CHR 0x81, CHR 0xAB] @ [CHR 0xE3, CHR 0x81, CHR 0xA1]
  @ [CHR 0xE3, CHR 0x81, CHR 0xAF] @ [CHR 0xE3, CHR 0x80, CHR 0x81] @ name
  @ [CHR 0xE3, CHR 0x81, CHR 0x95] @ [CHR 0xE3, CHR 0x82, CHR 0x93]
  @ [CHR 0xEF, CHR 0xBC, CHR 0x81]"
| "greetings name Zh = [CHR 0xE4, CHR 0xBD, CHR 0xA0] @ [CHR 0xE5, CHR 0xA5, CHR 0xBD]
  @ [CHR 0xEF, CHR 0xBC, CHR 0x8C] @ name @ [CHR 0xEF, CHR 0xBC, CHR 0x81]"
| "greetings name Es = [CHR 0xC2, CHR 0xA1] @ ''Hola, '' @ name @ ''! '' @ [CHR 0xC2, CHR 0xBF]
  @ ''Qu'' @ [CHR 0xC3, CHR 0xA9] @ '' tal?''"
| "greetings name Fr = ''Bonjour, '' @ name @ '' ! Enchant'' @ [CHR 0xC3, CHR 0xA9] @ ''(e) !''"
| "greetings name De = ''Hallo, '' @ name @ ''! Freut mich!''"

definition greet :: "entry_point \<Rightarrow> string \<Rightarrow> language \<Rightarrow> tool_result eff" where
  "greet e name language = (let greeting = greetings name language in ret (success e greeting))"

section \<open>calc\<close>

datatype operator = Plus | Minus | Times | Divide

text \<open>The operator as the template literal prints it: the string of the enum.\<close>

fun operator_text :: "operator \<Rightarrow> string" where
  "operator_text Plus = ''+''"
| "operator_text Minus = ''-''"
| "operator_text Times = ''*''"
| "operator_text Divide = ''/''"

text \<open>
  The text returned on a division by zero (index.ts 108, route.ts 75): "error: cannot
  divide by 0.".
\<close>

definition division_by_zero_text :: string where
  "division_by_zero_text =
     [CHR 0xEC, CHR 0x98, CHR 0xA4] @ [CHR 0xEB, CHR 0xA5, CHR 0x98] @ '': 0''
       @ [CHR 0xEC, CHR 0x9C, CHR 0xBC] @ [CHR 0xEB, CHR 0xA1, CHR 0x9C] @ '' ''
       @ [CHR 0xEB, CHR 0x82, CHR 0x98] @ [CHR 0xEB, CHR 0x88, CHR 0x8C] @ '' ''
       @ [CHR 0xEC, CHR 0x88, CHR 0x98] @ '' '' @ [CHR 0xEC, CHR 0x97, CHR 0x86]
       @ [CHR 0xEC, CHR 0x8A, CHR 0xB5] @ [CHR 0xEB, CHR 0x8B, CHR 0x88]
       @ [CHR 0xEB, CHR 0x8B, CHR 0xA4] @ ''.''"

text \<open>
  The \<^verbatim>\<open>switch\<close> of the handler: \<open>None\<close> is the early return inside \<^verbatim>\<open>case '/'\<close>. The
  \<^verbatim>\<open>default: result = 0\<close> of route.ts is unreachable for an operator of the enum.
\<close>

definition calc_switch :: "runtime \<Rightarrow> number \<Rightarrow> number \<Rightarrow> operator \<Rightarrow> number option" where
  "calc_switch rt a b operator =
     (case operator of
        Plus \<Rightarrow> Some (num_add rt a b)
      | Minus \<Rightarrow> Some (num_sub rt a b)
      | Times \<Rightarrow> Some (num_mul rt a b)
      | Divide \<Rightarrow> if b = Finite 0 then None else Some (num_div rt a b))"

definition calc :: "entry_point \<Rightarrow> runtime \<Rightarrow> number \<Rightarrow> number \<Rightarrow> operator \<Rightarrow> tool_result eff" where
  "calc e rt a b operator =
     (case calc_switch rt a b operator of
        None \<Rightarrow> ret (text_result division_by_zero_text)
      | Some result \<Rightarrow>
          ret (success e
            (num_to_string rt a @ '' '' @ operator_text operator @ '' '' @ num_to_string rt b
              @ '' = '' @ num_to_string rt result)))"

section \<open>now\<close>

text \<open>
  The error text of the catch block (index.ts 197): "error: '...' is not a valid time
  zone. Please use the IANA time zone format. (e.g. Asia/Seoul, America/New_York)".
\<close>

definition invalid_timezone_text :: "string \<Rightarrow> string" where
  "invalid_timezone_text tz =
     [CHR 0xEC, CHR 0x98, CHR 0xA4] @ [CHR 0xEB, CHR 0xA5, CHR 0x98] @ '': '' @ [CHR 0x27] @ tz
     @ [CHR 0x27] @ [CHR 0xEC, CHR 0x9D, CHR 0x80] @ ''('' @ [CHR 0xEB, CHR 0x8A, CHR 0x94]
       @ '') '' @ [CHR 0xEC, CHR 0x9C, CHR 0xA0] @ [CHR 0xED, CHR 0x9A, CHR 0xA8]
       @ [CHR 0xED, CHR 0x95, CHR 0x98] @ [CHR 0xEC, CHR 0xA7, CHR 0x80] @ '' ''
       @ [CHR 0xEC, CHR 0x95, CHR 0x8A] @ [CHR 0xEC, CHR 0x9D, CHR 0x80] @ '' ''
       @ [CHR 0xED, CHR 0x83, CHR 0x80] @ [CHR 0xEC, CHR 0x9E, CHR 0x84]
       @ [CHR 0xEC, CHR 0xA1, CHR 0xB4] @ [CHR 0xEC, CHR 0x9E, CHR 0x85]
       @ [CHR 0xEB, CHR 0x8B, CHR 0x88] @ [CHR 0xEB, CHR 0x8B, CHR 0xA4] @ ''. IANA ''
       @ [CHR 0xED, CHR 0x83, CHR 0x80] @ [CHR 0xEC, CHR 0x9E, CHR 0x84]
       @ [CHR 0xEC, CHR 0xA1, CHR 0xB4] @ '' '' @ [CHR 0xED, CHR 0x98, CHR 0x95]
       @ [CHR 0xEC, CHR 0x8B, CHR 0x9D] @ [CHR 0xEC, CHR 0x9D, CHR 0x84] @ '' ''
       @ [CHR 0xEC, CHR 0x82, CHR 0xAC] @ [CHR 0xEC, CHR 0x9A, CHR 0xA9]
       @ [CHR 0xED, CHR 0x95, CHR 0xB4] @ [CHR 0xEC, CHR 0xA3, CHR 0xBC]
       @ [CHR 0xEC, CHR 0x84, CHR 0xB8] @ [CHR 0xEC, CHR 0x9A, CHR 0x94] @ ''. (''
       @ [CHR 0xEC, CHR 0x98, CHR 0x88] @ '': Asia/Seoul, America/New_York)''"

definition now_options :: "string \<Rightarrow> date_options" where
  "now_options tz =
     \<lparr>timeZone = tz, year = Numeric, month = TwoDigit, day = TwoDigit, hour = TwoDigit,
      minute = TwoDigit, second = TwoDigit, hour12 = False\<rparr>"

text \<open>The label between the time zone and the time reads "current time".\<close>

definition now_text :: "string \<Rightarrow> string \<Rightarrow> string" where
  "now_text tz formatted = ''['' @ tz @ ''] '' @ [CHR 0xED, CHR 0x98, CHR 0x84]
    @ [CHR 0xEC, CHR 0x9E, CHR 0xAC] @ '' '' @ [CHR 0xEC, CHR 0x8B, CHR 0x9C]
    @ [CHR 0xEA, CHR 0xB0, CHR 0x84] @ '': '' @ formatted"

definition now :: "entry_point \<Rightarrow> runtime \<Rightarrow> world \<Rightarrow> string \<Rightarrow> tool_result eff" where
  "now e rt w tz =
     try_catch
       (and_then (lift (toLocaleString rt (clock w) ''ko-KR'' (now_options tz)))
          (\<lambda>formatted. ret (success e (now_text tz formatted))))
       (\<lambda>error. ret (text_result (invalid_timezone_text tz)))"

section \<open>geocode\<close>

text \<open>\<^verbatim>\<open>Array.prototype.join\<close> on an array of strings.\<close>

fun join :: "string \<Rightarrow> string list \<Rightarrow> string" where
  "join sep [] = []"
| "join sep [x] = x"
| "join sep (x # y # ys) = x @ sep @ join sep (y # ys)"

definition geocode_url :: "string \<Rightarrow> string" where
  "geocode_url encoded =
     ''https://nominatim.openstreetmap.org/search?q='' @ encoded
     @ ''&format=json&limit=1&addressdetails=1''"

definition geocode_headers :: "(string \<times> string) list" where
  "geocode_headers = [(''User-Agent'', ''MCP-Geocode-Tool/1.0'')]"

text \<open>The message of the error thrown on a response that is not ok: "API request failed: status".\<close>

definition request_failed_text :: "runtime \<Rightarrow> nat \<Rightarrow> string" where
  "request_failed_text rt code =
     ''API '' @ [CHR 0xEC, CHR 0x9A, CHR 0x94] @ [CHR 0xEC, CHR 0xB2, CHR 0xAD] @ '' ''
       @ [CHR 0xEC, CHR 0x8B, CHR 0xA4] @ [CHR 0xED, CHR 0x8C, CHR 0xA8] @ '': ''
       @ num_to_string rt (Finite (of_nat code))"

text \<open>"There are no search results for '...'" (index.ts 250).\<close>

definition no_results_text :: "string \<Rightarrow> string" where
  "no_results_text query =
     [CHR 0x27] @ query @ [CHR 0x27] @ [CHR 0xEC, CHR 0x97, CHR 0x90] @ '' ''
       @ [CHR 0xEB, CHR 0x8C, CHR 0x80] @ [CHR 0xED, CHR 0x95, CHR 0x9C] @ '' ''
       @ [CHR 0xEA, CHR 0xB2, CHR 0x80] @ [CHR 0xEC, CHR 0x83, CHR 0x89] @ '' ''
       @ [CHR 0xEA, CHR 0xB2, CHR 0xB0] @ [CHR 0xEA, CHR 0xB3, CHR 0xBC]
       @ [CHR 0xEA, CHR 0xB0, CHR 0x80] @ '' '' @ [CHR 0xEC, CHR 0x97, CHR 0x86]
       @ [CHR 0xEC, CHR 0x8A, CHR 0xB5] @ [CHR 0xEB, CHR 0x8B, CHR 0x88]
       @ [CHR 0xEB, CHR 0x8B, CHR 0xA4] @ ''.''"

text \<open>The three lines of a match: a pin and the display name, "latitude(lat): ", "longitude(lon): ".\<close>

definition geocode_text :: "geo_record \<Rightarrow> string" where
  "geocode_text result =
     join [CHR 0x0A]
       [[CHR 0xF0, CHR 0x9F, CHR 0x93, CHR 0x8D] @ '' '' @ display_name result,
        [CHR 0xEC, CHR 0x9C, CHR 0x84] @ [CHR 0xEB, CHR 0x8F, CHR 0x84] @ ''(lat): ''
          @ lat result,
        [CHR 0xEA, CHR 0xB2, CHR 0xBD] @ [CHR 0xEB, CHR 0x8F, CHR 0x84] @ ''(lon): ''
          @ lon result]"

text \<open>"error: geocoding failed - message" (index.ts 286).\<close>

definition geocode_failed_text :: "string \<Rightarrow> string" where
  "geocode_failed_text message =
     [CHR 0xEC, CHR 0x98, CHR 0xA4] @ [CHR 0xEB, CHR 0xA5, CHR 0x98] @ '': ''
       @ [CHR 0xEC, CHR 0xA7, CHR 0x80] @ [CHR 0xEC, CHR 0x98, CHR 0xA4]
       @ [CHR 0xEC, CHR 0xBD, CHR 0x94] @ [CHR 0xEB, CHR 0x94, CHR 0xA9] @ '' ''
       @ [CHR 0xEC, CHR 0x8B, CHR 0xA4] @ [CHR 0xED, CHR 0x8C, CHR 0xA8] @ '' - '' @ message"

text \<open>The body of the \<^verbatim>\<open>try\<close> block (index.ts 227-278).\<close>

definition geocode_try :: "entry_point \<Rightarrow> runtime \<Rightarrow> world \<Rightarrow> string \<Rightarrow> tool_result eff" where
  "geocode_try e rt w query =
     and_then (lift (encodeURIComponent rt query)) (\<lambda>encoded.
       let url = geocode_url encoded in
       and_then (call (Fetch url geocode_headers) (fetch_geocode w url geocode_headers))
         (\<lambda>response.
           if \<not> ok response then throw (Error (request_failed_text rt (status response)))
           else
             and_then (lift (json response)) (\<lambda>data.
               case data of
                 None \<Rightarrow> ret (text_result (no_results_text query))
               | Some [] \<Rightarrow> ret (text_result (no_results_text query))
               | Some (result # rest) \<Rightarrow> ret (success e (geocode_text result)))))"

definition geocode :: "entry_point \<Rightarrow> runtime \<Rightarrow> world \<Rightarrow> string \<Rightarrow> tool_result eff" where
  "geocode e rt w query =
     try_catch (geocode_try e rt w query)
       (\<lambda>error. ret (text_result (geocode_failed_text (catch_message error))))"

section \<open>get-weather\<close>

text \<open>
  The table \<^verbatim>\<open>weatherCodes\<close> (index.ts 391-420, route.ts 308-337): a description and an
  emoji for each WMO code (0 clear, 1 mostly clear, 2 partly cloudy, 3 overcast, 45 fog, 48
  rime fog, 51/53/55 light, moderate, dense drizzle, 56/57 freezing drizzle, 61/63/65
  light, moderate, heavy rain, 66/67 freezing rain, 71/73/75 light, moderate, heavy snow, 77
  snow grains, 80/81/82 rain showers, 85/86 snow showers, 95 thunderstorm, 96/99
  thunderstorm with hail). A key of the object is the printed number, and a finite double
  prints as one of the keys exactly when it is that integer, so the lookup
  \<^verbatim>\<open>weatherCodes[code]\<close> is the lookup of the number.
\<close>

definition weatherCodes :: "(number \<times> string) list" where
  "weatherCodes =
    [(Finite 0, [CHR 0xEB, CHR 0xA7, CHR 0x91] @ [CHR 0xEC, CHR 0x9D, CHR 0x8C] @ '' ''
      @ [CHR 0xE2, CHR 0x98, CHR 0x80] @ [CHR 0xEF, CHR 0xB8, CHR 0x8F]),
     (Finite 1, [CHR 0xEB, CHR 0x8C, CHR 0x80] @ [CHR 0xEC, CHR 0xB2, CHR 0xB4]
       @ [CHR 0xEB, CHR 0xA1, CHR 0x9C] @ '' '' @ [CHR 0xEB, CHR 0xA7, CHR 0x91]
       @ [CHR 0xEC, CHR 0x9D, CHR 0x8C] @ '' '' @ [CHR 0xF0, CHR 0x9F, CHR 0x8C, CHR 0xA4]
       @ [CHR 0xEF, CHR 0xB8, CHR 0x8F]),
     (Finite 2, [CHR 0xEB, CHR 0xB6, CHR 0x80] @ [CHR 0xEB, CHR 0xB6, CHR 0x84]
       @ [CHR 0xEC, CHR 0xA0, CHR 0x81] @ [CHR 0xEC, CHR 0x9C, CHR 0xBC]
       @ [CHR 0xEB, CHR 0xA1, CHR 0x9C] @ '' '' @ [CHR 0xED, CHR 0x9D, CHR 0x90]
       @ [CHR 0xEB, CHR 0xA6, CHR 0xBC] @ '' '' @ [CHR 0xE2, CHR 0x9B, CHR 0x85]),
     (Finite 3, [CHR 0xED, CHR 0x9D, CHR 0x90] @ [CHR 0xEB, CHR 0xA6, CHR 0xBC] @ '' ''
       @ [CHR 0xE2, CHR 0x98, CHR 0x81] @ [CHR 0xEF, CHR 0xB8, CHR 0x8F]),
     (Finite 45, [CHR 0xEC, CHR 0x95, CHR 0x88] @ [CHR 0xEA, CHR 0xB0, CHR 0x9C] @ '' ''
       @ [CHR 0xF0, CHR 0x9F, CHR 0x8C, CHR 0xAB] @ [CHR 0xEF, CHR 0xB8, CHR 0x8F]),
     (Finite 48, [CHR 0xEC, CHR 0x84, CHR 0x9C] @ [CHR 0xEB, CHR 0xA6, CHR 0xAC] @ '' ''
       @ [CHR 0xEC, CHR 0x95, CHR 0x88] @ [CHR 0xEA, CHR 0xB0, CHR 0x9C] @ '' ''
       @ [CHR 0xF0, CHR 0x9F, CHR 0x8C, CHR 0xAB] @ [CHR 0xEF, CHR 0xB8, CHR 0x8F]),
     (Finite 51, [CHR 0xEA, CHR 0xB0, CHR 0x80] @ [CHR 0xEB, CHR 0xB2, CHR 0xBC]
       @ [CHR 0xEC, CHR 0x9A, CHR 0xB4] @ '' '' @ [CHR 0xEC, CHR 0x9D, CHR 0xB4]
       @ [CHR 0xEC, CHR 0x8A, CHR 0xAC] @ [CHR 0xEB, CHR 0xB9, CHR 0x84] @ '' ''
       @ [CHR 0xF0, CHR 0x9F, CHR 0x8C, CHR 0xA6] @ [CHR 0xEF, CHR 0xB8, CHR 0x8F]),
     (Finite 53, [CHR 0xEC, CHR 0x9D, CHR 0xB4] @ [CHR 0xEC, CHR 0x8A, CHR 0xAC]
       @ [CHR 0xEB, CHR 0xB9, CHR 0x84] @ '' '' @ [CHR 0xF0, CHR 0x9F, CHR 0x8C, CHR 0xA6]
       @ [CHR 0xEF, CHR 0xB8, CHR 0x8F]),
     (Finite 55, [CHR 0xEA, CHR 0xB0, CHR 0x95] @ [CHR 0xED, CHR 0x95, CHR 0x9C] @ '' ''
       @ [CHR 0xEC, CHR 0x9D, CHR 0xB4] @ [CHR 0xEC, CHR 0x8A, CHR 0xAC]
       @ [CHR 0xEB, CHR 0xB9, CHR 0x84] @ '' '' @ [CHR 0xF0, CHR 0x9F, CHR 0x8C, CHR 0xA6]
       @ [CHR 0xEF, CHR 0xB8, CHR 0x8F]),
     (Finite 56, [CHR 0xEA, CHR 0xB0, CHR 0x80] @ [CHR 0xEB, CHR 0xB2, CHR 0xBC]
       @ [CHR 0xEC, CHR 0x9A, CHR 0xB4] @ '' '' @ [CHR 0xEC, CHR 0xB0, CHR 0xA9]
       @ [CHR 0xEB, CHR 0xB9, CHR 0x99] @ [CHR 0xEC, CHR 0x84, CHR 0xB1] @ '' ''
       @ [CHR 0xEC, CHR 0x9D, CHR 0xB4] @ [CHR 0xEC, CHR 0x8A, CHR 0xAC]
       @ [CHR 0xEB, CHR 0xB9, CHR 0x84] @ '' '' @ [CHR 0xF0, CHR 0x9F, CHR 0x8C, CHR 0xA7]
       @ [CHR 0xEF, CHR 0xB8, CHR 0x8F]),
     (Finite 57, [CHR 0xEA, CHR 0xB0, CHR 0x95] @ [CHR 0xED, CHR 0x95, CHR 0x9C] @ '' ''
       @ [CHR 0xEC, CHR 0xB0, CHR 0xA9] @ [CHR 0xEB, CHR 0xB9, CHR 0x99]
       @ [CHR 0xEC, CHR 0x84, CHR 0xB1] @ '' '' @ [CHR 0xEC, CHR 0x9D, CHR 0xB4]
       @ [CHR 0xEC, CHR 0x8A, CHR 0xAC] @ [CHR 0xEB, CHR 0xB9, CHR 0x84] @ '' ''
       @ [CHR 0xF0, CHR 0x9F, CHR 0x8C, CHR 0xA7] @ [CHR 0xEF, CHR 0xB8, CHR 0x8F]),
     (Finite 61, [CHR 0xEC, CHR 0x95, CHR 0xBD] @ [CHR 0xED, CHR 0x95, CHR 0x9C] @ '' ''
       @ [CHR 0xEB, CHR 0xB9, CHR 0x84] @ '' '' @ [CHR 0xF0, CHR 0x9F, CHR 0x8C, CHR 0xA7]
       @ [CHR 0xEF, CHR 0xB8, CHR 0x8F]),
     (Finite 63, [CHR 0xEB, CHR 0xB9, CHR 0x84] @ '' ''
       @ [CHR 0xF0, CHR 0x9F, CHR 0x8C, CHR 0xA7] @ [CHR 0xEF, CHR 0xB8, CHR 0x8F]),
     (Finite 65, [CHR 0xEA, CHR 0xB0, CHR 0x95] @ [CHR 0xED, CHR 0x95, CHR 0x9C] @ '' ''
       @ [CHR 0xEB, CHR 0xB9, CHR 0x84] @ '' '' @ [CHR 0xF0, CHR 0x9F, CHR 0x8C, CHR 0xA7]
       @ [CHR 0xEF, CHR 0xB8, CHR 0x8F]),
     (Finite 66, [CHR 0xEA, CHR 0xB0, CHR 0x80] @ [CHR 0xEB, CHR 0xB2, CHR 0xBC]
       @ [CHR 0xEC, CHR 0x9A, CHR 0xB4] @ '' '' @ [CHR 0xEC, CHR 0xB0, CHR 0xA9]
       @ [CHR 0xEB, CHR 0xB9, CHR 0x99] @ [CHR 0xEC, CHR 0x84, CHR 0xB1] @ '' ''
       @ [CHR 0xEB, CHR 0xB9, CHR 0x84] @ '' '' @ [CHR 0xF0, CHR 0x9F, CHR 0x8C, CHR 0xA7]
       @ [CHR 0xEF, CHR 0xB8, CHR 0x8F]),
     (Finite 67, [CHR 0xEA, CHR 0xB0, CHR 0x95] @ [CHR 0xED, CHR 0x95, CHR 0x9C] @ '' ''
       @ [CHR 0xEC, CHR 0xB0, CHR 0xA9] @ [CHR 0xEB, CHR 0xB9, CHR 0x99]
       @ [CHR 0xEC, CHR 0x84, CHR 0xB1] @ '' '' @ [CHR 0xEB, CHR 0xB9, CHR 0x84] @ '' ''
       @ [CHR 0xF0, CHR 0x9F, CHR 0x8C, CHR 0xA7] @ [CHR 0xEF, CHR 0xB8, CHR 0x8F]),
     (Finite 71, [CHR 0xEC, CHR 0x95, CHR 0xBD] @ [CHR 0xED, CHR 0x95, CHR 0x9C] @ '' ''
       @ [CHR 0xEB, CHR 0x88, CHR 0x88] @ '' '' @ [CHR 0xF0, CHR 0x9F, CHR 0x8C, CHR 0xA8]
       @ [CHR 0xEF, CHR 0xB8, CHR 0x8F]),
     (Finite 73, [CHR 0xEB, CHR 0x88, CHR 0x88] @ '' ''
       @ [CHR 0xF0, CHR 0x9F, CHR 0x8C, CHR 0xA8] @ [CHR 0xEF, CHR 0xB8, CHR 0x8F]),
     (Finite 75, [CHR 0xEA, CHR 0xB0, CHR 0x95] @ [CHR 0xED, CHR 0x95, CHR 0x9C] @ '' ''
       @ [CHR 0xEB, CHR 0x88, CHR 0x88] @ '' '' @ [CHR 0xF0, CHR 0x9F, CHR 0x8C, CHR 0xA8]
       @ [CHR 0xEF, CHR 0xB8, CHR 0x8F]),
     (Finite 77, [CHR 0xEC, CHR 0x8B, CHR 0xB8] @ [CHR 0xEB, CHR 0x9D, CHR 0xBD]
       @ [CHR 0xEB, CHR 0x88, CHR 0x88] @ '' '' @ [CHR 0xF0, CHR 0x9F, CHR 0x8C, CHR 0xA8]
       @ [CHR 0xEF, CHR 0xB8, CHR 0x8F]),
     (Finite 80, [CHR 0xEC, CHR 0x95, CHR 0xBD] @ [CHR 0xED, CHR 0x95, CHR 0x9C] @ '' ''
       @ [CHR 0xEC, CHR 0x86, CHR 0x8C] @ [CHR 0xEB, CHR 0x82, CHR 0x98]
       @ [CHR 0xEA, CHR 0xB8, CHR 0xB0] @ '' '' @ [CHR 0xF0, CHR 0x9F, CHR 0x8C, CHR 0xA6]
       @ [CHR 0xEF, CHR 0xB8, CHR 0x8F]),
     (Finite 81, [CHR 0xEC, CHR 0x86, CHR 0x8C] @ [CHR 0xEB, CHR 0x82, CHR 0x98]
       @ [CHR 0xEA, CHR 0xB8, CHR 0xB0] @ '' '' @ [CHR 0xF0, CHR 0x9F, CHR 0x8C, CHR 0xA6]
       @ [CHR 0xEF, CHR 0xB8, CHR 0x8F]),
     (Finite 82, [CHR 0xEA, CHR 0xB0, CHR 0x95] @ [CHR 0xED, CHR 0x95, CHR 0x9C] @ '' ''
       @ [CHR 0xEC, CHR 0x86, CHR 0x8C] @ [CHR 0xEB, CHR 0x82, CHR 0x98]
       @ [CHR 0xEA, CHR 0xB8, CHR 0xB0] @ '' '' @ [CHR 0xF0, CHR 0x9F, CHR 0x8C, CHR 0xA6]
       @ [CHR 0xEF, CHR 0xB8, CHR 0x8F]),
     (Finite 85, [CHR 0xEC, CHR 0x95, CHR 0xBD] @ [CHR 0xED, CHR 0x95, CHR 0x9C] @ '' ''
       @ [CHR 0xEB, CHR 0x88, CHR 0x88] @ [CHR 0xEC, CHR 0x86, CHR 0x8C]
       @ [CHR 0xEB, CHR 0x82, CHR 0x98] @ [CHR 0xEA, CHR 0xB8, CHR 0xB0] @ '' ''
       @ [CHR 0xF0, CHR 0x9F, CHR 0x8C, CHR 0xA8] @ [CHR 0xEF, CHR 0xB8, CHR 0x8F]),
     (Finite 86, [CHR 0xEA, CHR 0xB0, CHR 0x95] @ [CHR 0xED, CHR 0x95, CHR 0x9C] @ '' ''
       @ [CHR 0xEB, CHR 0x88, CHR 0x88] @ [CHR 0xEC, CHR 0x86, CHR 0x8C]
       @ [CHR 0xEB, CHR 0x82, CHR 0x98] @ [CHR 0xEA, CHR 0xB8, CHR 0xB0] @ '' ''
       @ [CHR 0xF0, CHR 0x9F, CHR 0x8C, CHR 0xA8] @ [CHR 0xEF, CHR 0xB8, CHR 0x8F]),
     (Finite 95, [CHR 0xEB, CHR 0x87, CHR 0x8C] @ [CHR 0xEC, CHR 0x9A, CHR 0xB0] @ '' ''
       @ [CHR 0xE2, CHR 0x9B, CHR 0x88] @ [CHR 0xEF, CHR 0xB8, CHR 0x8F]),
     (Finite 96, [CHR 0xEC, CHR 0x95, CHR 0xBD] @ [CHR 0xED, CHR 0x95, CHR 0x9C] @ '' ''
       @ [CHR 0xEC, CHR 0x9A, CHR 0xB0] @ [CHR 0xEB, CHR 0xB0, CHR 0x95] @ '' ''
       @ [CHR 0xEB, CHR 0x87, CHR 0x8C] @ [CHR 0xEC, CHR 0x9A, CHR 0xB0] @ '' ''
       @ [CHR 0xE2, CHR 0x9B, CHR 0x88] @ [CHR 0xEF, CHR 0xB8, CHR 0x8F]),
     (Finite 99, [CHR 0xEA, CHR 0xB0, CHR 0x95] @ [CHR 0xED, CHR 0x95, CHR 0x9C] @ '' ''
       @ [CHR 0xEC, CHR 0x9A, CHR 0xB0] @ [CHR 0xEB, CHR 0xB0, CHR 0x95] @ '' ''
       @ [CHR 0xEB, CHR 0x87, CHR 0x8C] @ [CHR 0xEC, CHR 0x9A, CHR 0xB0] @ '' ''
       @ [CHR 0xE2, CHR 0x9B, CHR 0x88] @ [CHR 0xEF, CHR 0xB8, CHR 0x8F])]"

text \<open>
  An element read \<^verbatim>\<open>xs[i]\<close>: \<^verbatim>\<open>undefined\<close> (\<open>None\<close>) past the end of the array.
\<close>

definition element :: "'a list \<Rightarrow> nat \<Rightarrow> 'a option" where
  "element xs i = (if i < length xs then Some (xs ! i) else None)"

text \<open>A value that may be \<^verbatim>\<open>undefined\<close>, in a template literal.\<close>

definition string_or_undefined :: "string option \<Rightarrow> string" where
  "string_or_undefined v = (case v of None \<Rightarrow> ''undefined'' | Some s \<Rightarrow> s)"

definition number_or_undefined :: "runtime \<Rightarrow> number option \<Rightarrow> string" where
  "number_or_undefined rt v = (case v of None \<Rightarrow> ''undefined'' | Some n \<Rightarrow> num_to_string rt n)"

text \<open>
  \<^verbatim>\<open>weatherCodes[code] ?? `... (${code})`\<close>: the fallback reads "unknown (code)".
  The argument is \<open>None\<close> when the daily array is shorter than
  \<^verbatim>\<open>d.time\<close>; \<^verbatim>\<open>weatherCodes[undefined]\<close> is \<^verbatim>\<open>undefined\<close>.
\<close>

definition unknown_code_text :: "string \<Rightarrow> string" where
  "unknown_code_text printed = [CHR 0xEC, CHR 0x95, CHR 0x8C] @ '' ''
    @ [CHR 0xEC, CHR 0x88, CHR 0x98] @ '' '' @ [CHR 0xEC, CHR 0x97, CHR 0x86]
    @ [CHR 0xEC, CHR 0x9D, CHR 0x8C] @ '' ('' @ printed @ '')''"

definition getWeatherDesc :: "runtime \<Rightarrow> number option \<Rightarrow> string" where
  "getWeatherDesc rt code =
     (case code of
        None \<Rightarrow> unknown_code_text (number_or_undefined rt code)
      | Some n \<Rightarrow>
          (case map_of weatherCodes n of
             Some description \<Rightarrow> description
           | None \<Rightarrow> unknown_code_text (number_or_undefined rt code)))"

definition currentParams :: string where
  "currentParams =
     join '',''
       [''temperature_2m'', ''relative_humidity_2m'', ''apparent_temperature'', ''weather_code'',
        ''wind_speed_10m'', ''wind_direction_10m'', ''precipitation'']"

definition dailyParams :: string where
  "dailyParams =
     join '',''
       [''weather_code'', ''temperature_2m_max'', ''temperature_2m_min'', ''precipitation_sum'',
        ''precipitation_probability_max'', ''wind_speed_10m_max'']"

definition forecast_url :: "runtime \<Rightarrow> number \<Rightarrow> number \<Rightarrow> number \<Rightarrow> string" where
  "forecast_url rt latitude longitude forecast_days =
     ''https://api.open-meteo.com/v1/forecast''
     @ ''?latitude='' @ num_to_string rt latitude @ ''&longitude='' @ num_to_string rt longitude
     @ ''&current='' @ currentParams
     @ ''&daily='' @ dailyParams
     @ ''&forecast_days='' @ num_to_string rt forecast_days
     @ ''&timezone=auto''"

text \<open>
  The ten lines the array \<^verbatim>\<open>lines\<close> starts with (index.ts 428-439): the coordinates and the
  time zone, the current weather (state, temperature and apparent temperature, humidity,
  wind, precipitation) and the heading "N-day forecast:".
\<close>

definition header_lines ::
  "runtime \<Rightarrow> number \<Rightarrow> number \<Rightarrow> number \<Rightarrow> forecast_data \<Rightarrow> string list" where
  "header_lines rt latitude longitude forecast_days data =
     (let c = data_current data; cu = data_current_units data in
      [[CHR 0xF0, CHR 0x9F, CHR 0x93, CHR 0x8D] @ '' '' @ [CHR 0xEC, CHR 0xA2, CHR 0x8C]
        @ [CHR 0xED, CHR 0x91, CHR 0x9C] @ '': '' @ num_to_string rt latitude @ '', ''
        @ num_to_string rt longitude
         @ '' ('' @ data_timezone data @ '')'',
       [],
       [CHR 0xF0, CHR 0x9F, CHR 0x8C, CHR 0xA1] @ [CHR 0xEF, CHR 0xB8, CHR 0x8F] @ '' ''
         @ [CHR 0xED, CHR 0x98, CHR 0x84] @ [CHR 0xEC, CHR 0x9E, CHR 0xAC] @ '' ''
         @ [CHR 0xEB, CHR 0x82, CHR 0xA0] @ [CHR 0xEC, CHR 0x94, CHR 0xA8] @ '' ('' @ c_time c
         @ '')'',
       ''  '' @ [CHR 0xEC, CHR 0x83, CHR 0x81] @ [CHR 0xED, CHR 0x83, CHR 0x9C] @ '': ''
         @ getWeatherDesc rt (Some (c_weather_code c)),
       ''  '' @ [CHR 0xEA, CHR 0xB8, CHR 0xB0] @ [CHR 0xEC, CHR 0x98, CHR 0xA8] @ '': ''
         @ num_to_string rt (c_temperature_2m c) @ cu_temperature_2m cu
         @ '' ('' @ [CHR 0xEC, CHR 0xB2, CHR 0xB4] @ [CHR 0xEA, CHR 0xB0, CHR 0x90] @ '' ''
           @ num_to_string rt (c_apparent_temperature c)
         @ cu_apparent_temperature cu @ '')'',
       ''  '' @ [CHR 0xEC, CHR 0x8A, CHR 0xB5] @ [CHR 0xEB, CHR 0x8F, CHR 0x84] @ '': ''
         @ num_to_string rt (c_relative_humidity_2m c) @ cu_relative_humidity_2m cu,
       ''  '' @ [CHR 0xEB, CHR 0xB0, CHR 0x94] @ [CHR 0xEB, CHR 0x9E, CHR 0x8C] @ '': ''
         @ num_to_string rt (c_wind_speed_10m c) @ cu_wind_speed_10m cu
         @ '' ('' @ num_to_string rt (c_wind_direction_10m c) @ [CHR 0xC2, CHR 0xB0] @ '')'',
       ''  '' @ [CHR 0xEA, CHR 0xB0, CHR 0x95] @ [CHR 0xEC, CHR 0x88, CHR 0x98]
         @ [CHR 0xEB, CHR 0x9F, CHR 0x89] @ '': '' @ num_to_string rt (c_precipitation c)
         @ cu_precipitation cu,
       [],
       [CHR 0xF0, CHR 0x9F, CHR 0x93, CHR 0x85] @ '' '' @ num_to_string rt forecast_days
         @ [CHR 0xEC, CHR 0x9D, CHR 0xBC] @ '' '' @ [CHR 0xEC, CHR 0x98, CHR 0x88]
         @ [CHR 0xEB, CHR 0xB3, CHR 0xB4] @ '':''])"

text \<open>
  The line pushed for day \<open>i\<close> (index.ts 445): date, state, minimum~maximum temperature,
  "precipitation" sum ("probability" p%), "maximum wind speed".
\<close>

definition daily_line :: "runtime \<Rightarrow> forecast_daily \<Rightarrow> forecast_daily_units \<Rightarrow> nat \<Rightarrow> string" where
  "daily_line rt d du i =
     ''  '' @ string_or_undefined (element (d_time d) i)
     @ '' | '' @ getWeatherDesc rt (element (d_weather_code d) i)
     @ '' | '' @ number_or_undefined rt (element (d_temperature_2m_min d) i)
     @ ''~'' @ number_or_undefined rt (element (d_temperature_2m_max d) i)
     @ du_temperature_2m_max du
     @ '' | '' @ [CHR 0xEA, CHR 0xB0, CHR 0x95] @ [CHR 0xEC, CHR 0x88, CHR 0x98] @ '' ''
       @ number_or_undefined rt (element (d_precipitation_sum d) i)
     @ du_precipitation_sum du
     @ '' ('' @ [CHR 0xED, CHR 0x99, CHR 0x95] @ [CHR 0xEB, CHR 0xA5, CHR 0xA0] @ '' ''
       @ number_or_undefined rt (element (d_precipitation_probability_max d) i)
     @ ''%) | '' @ [CHR 0xEC, CHR 0xB5, CHR 0x9C] @ [CHR 0xEB, CHR 0x8C, CHR 0x80]
       @ [CHR 0xED, CHR 0x92, CHR 0x8D] @ [CHR 0xEC, CHR 0x86, CHR 0x8D] @ '' ''
       @ number_or_undefined rt (element (d_wind_speed_10m_max d) i)
     @ du_wind_speed_10m_max du"

text \<open>
  \<^verbatim>\<open>for (let i = 0; i < d.time.length; i++) lines.push(...)\<close>, from the counter \<open>i\<close> and the
  array \<open>lines\<close> so far.
\<close>

function daily_loop ::
  "runtime \<Rightarrow> forecast_daily \<Rightarrow> forecast_daily_units \<Rightarrow> nat \<Rightarrow> string list \<Rightarrow> string list" where
  "daily_loop rt d du i lines =
     (if i < length (d_time d) then daily_loop rt d du (i + 1) (lines @ [daily_line rt d du i])
      else lines)"
  by pat_completeness auto
termination
  by (relation "measure (\<lambda>(rt, d, du, i, lines). length (d_time d) - i)") auto

declare daily_loop.simps [simp del]

definition weather_lines ::
  "runtime \<Rightarrow> number \<Rightarrow> number \<Rightarrow> number \<Rightarrow> forecast_data \<Rightarrow> string list" where
  "weather_lines rt latitude longitude forecast_days data =
     daily_loop rt (data_daily data) (data_daily_units data) 0
       (header_lines rt latitude longitude forecast_days data)"

text \<open>"error: cannot fetch the weather information - message" (index.ts 474).\<close>

definition weather_failed_text :: "string \<Rightarrow> string" where
  "weather_failed_text message =
     [CHR 0xEC, CHR 0x98, CHR 0xA4] @ [CHR 0xEB, CHR 0xA5, CHR 0x98] @ '': ''
       @ [CHR 0xEB, CHR 0x82, CHR 0xA0] @ [CHR 0xEC, CHR 0x94, CHR 0xA8] @ '' ''
       @ [CHR 0xEC, CHR 0xA0, CHR 0x95] @ [CHR 0xEB, CHR 0xB3, CHR 0xB4]
       @ [CHR 0xEB, CHR 0xA5, CHR 0xBC] @ '' '' @ [CHR 0xEA, CHR 0xB0, CHR 0x80]
       @ [CHR 0xEC, CHR 0xA0, CHR 0xB8] @ [CHR 0xEC, CHR 0x98, CHR 0xAC] @ '' ''
       @ [CHR 0xEC, CHR 0x88, CHR 0x98] @ '' '' @ [CHR 0xEC, CHR 0x97, CHR 0x86]
       @ [CHR 0xEC, CHR 0x8A, CHR 0xB5] @ [CHR 0xEB, CHR 0x8B, CHR 0x88]
       @ [CHR 0xEB, CHR 0x8B, CHR 0xA4] @ '' - '' @ message"

text \<open>The body of the \<^verbatim>\<open>try\<close> block (index.ts 323-466).\<close>

definition get_weather_try ::
  "entry_point \<Rightarrow> runtime \<Rightarrow> world \<Rightarrow> number \<Rightarrow> number \<Rightarrow> number \<Rightarrow> tool_result eff" where
  "get_weather_try e rt w latitude longitude forecast_days =
     (let url = forecast_url rt latitude longitude forecast_days in
      and_then (call (Fetch url []) (fetch_forecast w url []))
        (\<lambda>response.
          if \<not> ok response then throw (Error (request_failed_text rt (status response)))
          else
            and_then (lift (json response)) (\<lambda>data.
              ret (success e
                (join [CHR 0x0A] (weather_lines rt latitude longitude forecast_days data))))))"

definition get_weather ::
  "entry_point \<Rightarrow> runtime \<Rightarrow> world \<Rightarrow> number \<Rightarrow> number \<Rightarrow> number \<Rightarrow> tool_result eff" where
  "get_weather e rt w latitude longitude forecast_days =
     try_catch (get_weather_try e rt w latitude longitude forecast_days)
       (\<lambda>error. ret (text_result (weather_failed_text (catch_message error))))"

section \<open>generate-image\<close>

text \<open>
  "error: the environment variable HF_TOKEN is not set. Set the environment variable
  HF_TOKEN to use the HuggingFace API." (index.ts 505, route.ts 414).
\<close>

definition missing_token_text :: string where
  "missing_token_text =
     [CHR 0xEC, CHR 0x98, CHR 0xA4] @ [CHR 0xEB, CHR 0xA5, CHR 0x98] @ '': HF_TOKEN ''
       @ [CHR 0xED, CHR 0x99, CHR 0x98] @ [CHR 0xEA, CHR 0xB2, CHR 0xBD]
       @ [CHR 0xEB, CHR 0xB3, CHR 0x80] @ [CHR 0xEC, CHR 0x88, CHR 0x98]
       @ [CHR 0xEA, CHR 0xB0, CHR 0x80] @ '' '' @ [CHR 0xEC, CHR 0x84, CHR 0xA4]
       @ [CHR 0xEC, CHR 0xA0, CHR 0x95] @ [CHR 0xEB, CHR 0x90, CHR 0x98]
       @ [CHR 0xEC, CHR 0xA7, CHR 0x80] @ '' '' @ [CHR 0xEC, CHR 0x95, CHR 0x8A]
       @ [CHR 0xEC, CHR 0x95, CHR 0x98] @ [CHR 0xEC, CHR 0x8A, CHR 0xB5]
       @ [CHR 0xEB, CHR 0x8B, CHR 0x88] @ [CHR 0xEB, CHR 0x8B, CHR 0xA4] @ ''. HuggingFace API''
       @ [CHR 0xEB, CHR 0xA5, CHR 0xBC] @ '' '' @ [CHR 0xEC, CHR 0x82, CHR 0xAC]
       @ [CHR 0xEC, CHR 0x9A, CHR 0xA9] @ [CHR 0xED, CHR 0x95, CHR 0x98]
       @ [CHR 0xEB, CHR 0xA0, CHR 0xA4] @ [CHR 0xEB, CHR 0xA9, CHR 0xB4] @ '' HF_TOKEN ''
       @ [CHR 0xED, CHR 0x99, CHR 0x98] @ [CHR 0xEA, CHR 0xB2, CHR 0xBD]
       @ [CHR 0xEB, CHR 0xB3, CHR 0x80] @ [CHR 0xEC, CHR 0x88, CHR 0x98]
       @ [CHR 0xEB, CHR 0xA5, CHR 0xBC] @ '' '' @ [CHR 0xEC, CHR 0x84, CHR 0xA4]
       @ [CHR 0xEC, CHR 0xA0, CHR 0x95] @ [CHR 0xED, CHR 0x95, CHR 0xB4]
       @ [CHR 0xEC, CHR 0xA3, CHR 0xBC] @ [CHR 0xEC, CHR 0x84, CHR 0xB8]
       @ [CHR 0xEC, CHR 0x9A, CHR 0x94] @ ''.''"

text \<open>"error: image generation failed - message" (index.ts 542).\<close>

definition image_failed_text :: "string \<Rightarrow> string" where
  "image_failed_text message =
     [CHR 0xEC, CHR 0x98, CHR 0xA4] @ [CHR 0xEB, CHR 0xA5, CHR 0x98] @ '': ''
       @ [CHR 0xEC, CHR 0x9D, CHR 0xB4] @ [CHR 0xEB, CHR 0xAF, CHR 0xB8]
       @ [CHR 0xEC, CHR 0xA7, CHR 0x80] @ '' '' @ [CHR 0xEC, CHR 0x83, CHR 0x9D]
       @ [CHR 0xEC, CHR 0x84, CHR 0xB1] @ '' '' @ [CHR 0xEC, CHR 0x8B, CHR 0xA4]
       @ [CHR 0xED, CHR 0x8C, CHR 0xA8] @ '' - '' @ message"

definition generate_image_request :: "string \<Rightarrow> number \<Rightarrow> image_request" where
  "generate_image_request prompt steps =
     \<lparr>provider = ''together'', model = ''black-forest-labs/FLUX.1-schnell'', inputs = prompt,
      num_inference_steps = steps\<rparr>"

text \<open>
  \<^verbatim>\<open>!hfToken\<close> holds when the variable is unset and when it is the empty string. Neither file
  returns \<^verbatim>\<open>structuredContent\<close> from this handler.
\<close>

definition generate_image :: "runtime \<Rightarrow> world \<Rightarrow> string \<Rightarrow> number \<Rightarrow> tool_result eff" where
  "generate_image rt w prompt steps =
     (case HF_TOKEN w of
        None \<Rightarrow> ret (text_result missing_token_text)
      | Some hfToken \<Rightarrow>
          if hfToken = [] then ret (text_result missing_token_text)
          else
            try_catch
              (and_then
                 (call (TextToImage hfToken (generate_image_request prompt steps))
                    (textToImage w hfToken (generate_image_request prompt steps)))
                 (\<lambda>image.
                   ret \<lparr>content = [Image_item (base64 rt image) ''image/png''],
                        structuredContent = None\<rparr>))
              (\<lambda>error. ret (text_result (image_failed_text (catch_message error)))))"

section \<open>The six tools\<close>

text \<open>A call of a tool with validated arguments, and the handler it runs.\<close>

datatype tool_call =
    Greet string language
  | Calc number number operator
  | Now string
  | Geocode string
  | GetWeather number number number
  | GenerateImage string number

fun call_tool :: "entry_point \<Rightarrow> runtime \<Rightarrow> world \<Rightarrow> tool_call \<Rightarrow> tool_result eff" where
  "call_tool e rt w (Greet name language) = greet e name language"
| "call_tool e rt w (Calc a b operator) = calc e rt a b operator"
| "call_tool e rt w (Now tz) = now e rt w tz"
| "call_tool e rt w (Geocode query) = geocode e rt w query"
| "call_tool e rt w (GetWeather latitude longitude forecast_days) =
     get_weather e rt w latitude longitude forecast_days"
| "call_tool e rt w (GenerateImage prompt steps) = generate_image rt w prompt steps"

section \<open>Input schemas and validation\<close>

text \<open>
  An argument as it arrives in the request: a JSON value, or \<open>RUndefined\<close> for a field the
  caller left out.
\<close>

datatype raw = RUndefined | RNull | RBool bool | RNum number | RStr string | RArray | RObject

datatype issue_code = invalid_type | too_small | too_big | invalid_enum_value

datatype protocol_error = UnknownTool string | InvalidArguments "(string \<times> issue_code) list"

type_synonym 'a schema = "raw \<Rightarrow> issue_code list + 'a"

text \<open>\<^verbatim>\<open>x <= y\<close> on doubles: false when either side is \<^verbatim>\<open>NaN\<close>.\<close>

fun num_le :: "number \<Rightarrow> number \<Rightarrow> bool" where
  "num_le NaN y = False"
| "num_le x NaN = False"
| "num_le NegInfinity y = True"
| "num_le x PosInfinity = True"
| "num_le (Finite x) (Finite y) = (x \<le> y)"
| "num_le PosInfinity y = False"
| "num_le x NegInfinity = False"

text \<open>
  Modelled from the spec: the schema combinators are those of the validation library the
  source imports (\<^verbatim>\<open>z.string()\<close>, \<^verbatim>\<open>z.number()\<close>, \<^verbatim>\<open>.min(k)\<close>, \<^verbatim>\<open>.max(k)\<close>, \<^verbatim>\<open>z.enum([...])\<close>,
  \<^verbatim>\<open>.optional()\<close>, \<^verbatim>\<open>.default(v)\<close>), which is not part of the repository. A schema maps a raw
  argument to the validated value or to the issues found: \<^verbatim>\<open>z.number()\<close> accepts a number
  other than \<^verbatim>\<open>NaN\<close> and nothing else, \<^verbatim>\<open>.min(k)\<close> and \<^verbatim>\<open>.max(k)\<close> are inclusive bounds,
  \<^verbatim>\<open>.optional()\<close> accepts a missing field, and \<^verbatim>\<open>.default(v)\<close> replaces a missing field by
  \<open>v\<close>. The schemas below are the ones the source declares.
\<close>

definition z_string :: "string schema" where
  "z_string v = (case v of RStr s \<Rightarrow> Inr s | _ \<Rightarrow> Inl [invalid_type])"

definition z_number :: "number schema" where
  "z_number v =
     (case v of RNum n \<Rightarrow> if n = NaN then Inl [invalid_type] else Inr n | _ \<Rightarrow> Inl [invalid_type])"

definition z_min :: "number \<Rightarrow> number schema \<Rightarrow> number schema" where
  "z_min k s v =
     (case s v of Inl issues \<Rightarrow> Inl issues
      | Inr n \<Rightarrow> if num_le k n then Inr n else Inl [too_small])"

definition z_max :: "number \<Rightarrow> number schema \<Rightarrow> number schema" where
  "z_max k s v =
     (case s v of Inl issues \<Rightarrow> Inl issues
      | Inr n \<Rightarrow> if num_le n k then Inr n else Inl [too_big])"

definition z_enum :: "(string \<times> 'a) list \<Rightarrow> 'a schema" where
  "z_enum options v =
     (case v of
        RStr s \<Rightarrow> (case map_of options s of Some x \<Rightarrow> Inr x | None \<Rightarrow> Inl [invalid_enum_value])
      | _ \<Rightarrow> Inl [invalid_type])"

definition z_optional :: "'a schema \<Rightarrow> 'a option schema" where
  "z_optional s v =
     (case v of RUndefined \<Rightarrow> Inr None
      | _ \<Rightarrow> (case s v of Inl issues \<Rightarrow> Inl issues | Inr x \<Rightarrow> Inr (Some x)))"

definition z_default :: "'a \<Rightarrow> 'a option schema \<Rightarrow> 'a schema" where
  "z_default d s v =
     (case v of RUndefined \<Rightarrow> Inr d
      | _ \<Rightarrow> (case s v of Inl issues \<Rightarrow> Inl issues | Inr None \<Rightarrow> Inr d | Inr (Some x) \<Rightarrow> Inr x))"

text \<open>The field schemas of the six \<^verbatim>\<open>inputSchema\<close> objects, as the source chains them.\<close>

definition name_schema :: "string schema" where
  "name_schema = z_string"

definition language_schema :: "language schema" where
  "language_schema =
     z_default En
       (z_optional
          (z_enum [(''ko'', Ko), (''en'', En), (''ja'', Ja), (''zh'', Zh), (''es'', Es),
                   (''fr'', Fr), (''de'', De)]))"

definition operator_schema :: "operator schema" where
  "operator_schema = z_enum [(''+'', Plus), (''-'', Minus), (''*'', Times), (''/'', Divide)]"

definition timezone_schema :: "string schema" where
  "timezone_schema = z_default ''UTC'' (z_optional z_string)"

definition forecast_days_schema :: "number schema" where
  "forecast_days_schema =
     z_default (Finite 3) (z_optional (z_max (Finite 16) (z_min (Finite 1) z_number)))"

definition num_inference_steps_schema :: "number schema" where
  "num_inference_steps_schema =
     z_default (Finite 4) (z_optional (z_max (Finite 10) (z_min (Finite 1) z_number)))"

text \<open>A field of the arguments object, validated; its issues carry the field's name.\<close>

definition field :: "(string \<times> raw) list \<Rightarrow> string \<Rightarrow> 'a schema \<Rightarrow> (string \<times> issue_code) list + 'a" where
  "field args key s =
     (case s (case map_of args key of None \<Rightarrow> RUndefined | Some v \<Rightarrow> v) of
        Inl issues \<Rightarrow> Inl (map (Pair key) issues)
      | Inr x \<Rightarrow> Inr x)"

text \<open>An object schema reports the issues of all its fields.\<close>

definition both ::
  "(string \<times> issue_code) list + 'a \<Rightarrow> (string \<times> issue_code) list + 'b
     \<Rightarrow> (string \<times> issue_code) list + ('a \<times> 'b)" where
  "both x y =
     (case (x, y) of
        (Inr a, Inr b) \<Rightarrow> Inr (a, b)
      | (Inl i, Inr b) \<Rightarrow> Inl i
      | (Inr a, Inl j) \<Rightarrow> Inl j
      | (Inl i, Inl j) \<Rightarrow> Inl (i @ j))"

definition validated :: "(string \<times> issue_code) list + 'a \<Rightarrow> ('a \<Rightarrow> tool_call) \<Rightarrow> protocol_error + tool_call" where
  "validated r build = (case r of Inl issues \<Rightarrow> Inl (InvalidArguments issues) | Inr x \<Rightarrow> Inr (build x))"

text \<open>
  Modelled from the spec: looking the tool up and validating the raw arguments against its
  \<^verbatim>\<open>inputSchema\<close> are the first two steps of dispatch in the server library, not code of the
  repository (section 4.1: fail with \<open>UnknownTool\<close> on an unregistered name, with
  \<open>InvalidArguments\<close> on a mismatch, apply the declared defaults). The result is the call the
  handler is then run with. The names and the schemas are the registered ones. What the
  library does with the handler's result afterwards (its step 4, the check against a declared
  \<^verbatim>\<open>outputSchema\<close>) is not modelled.
\<close>

definition parse_arguments :: "string \<Rightarrow> (string \<times> raw) list \<Rightarrow> protocol_error + tool_call" where
  "parse_arguments tool args =
     (if tool = ''greet'' then
        validated (both (field args ''name'' name_schema) (field args ''language'' language_schema))
          (\<lambda>(name, language). Greet name language)
      else if tool = ''calc'' then
        validated
          (both (field args ''a'' z_number)
             (both (field args ''b'' z_number) (field args ''operator'' operator_schema)))
          (\<lambda>(a, b, operator). Calc a b operator)
      else if tool = ''now'' then
        validated (field args ''timezone'' timezone_schema) Now
      else if tool = ''geocode'' then
        validated (field args ''query'' z_string) Geocode
      else if tool = ''get-weather'' then
        validated
          (both (field args ''latitude'' z_number)
             (both (field args ''longitude'' z_number)
                (field args ''forecast_days'' forecast_days_schema)))
          (\<lambda>(latitude, longitude, forecast_days). GetWeather latitude longitude forecast_days)
      else if tool = ''generate-image'' then
        validated
          (both (field args ''prompt'' z_string)
             (field args ''num_inference_steps'' num_inference_steps_schema))
          (\<lambda>(prompt, steps). GenerateImage prompt steps)
      else Inl (UnknownTool tool))"

section \<open>Reading an outcome\<close>

text \<open>
  The handler returned (it did not throw), and its \<^verbatim>\<open>content\<close> array is the single text item
  with the given text.
\<close>

definition returns_text :: "tool_result eff \<Rightarrow> string \<Rightarrow> bool" where
  "returns_text m text = (case fst m of Inl err \<Rightarrow> False | Inr r \<Rightarrow> content r = [Text text])"

text \<open>The handler returned, and its \<^verbatim>\<open>content\<close> array has exactly one item.\<close>

definition returns_one_item :: "tool_result eff \<Rightarrow> bool" where
  "returns_one_item m = (case fst m of Inl err \<Rightarrow> False | Inr r \<Rightarrow> length (content r) = 1)"

text \<open>
  The marker every error text of the source starts with: the word "error" (the two Hangul
  syllables U+C624 U+B958), a colon and a space.
\<close>

definition error_marker :: string where
  "error_marker = [CHR 0xEC, CHR 0x98, CHR 0xA4] @ [CHR 0xEB, CHR 0xA5, CHR 0x98] @ '': ''"


text \<open>The tools whose handler reads the clock, and the process environment.\<close>

fun reads_clock :: "tool_call \<Rightarrow> bool" where
  "reads_clock (Now tz) = True"
| "reads_clock c = False"

fun reads_environment :: "tool_call \<Rightarrow> bool" where
  "reads_environment (GenerateImage prompt steps) = True"
| "reads_environment c = False"

section \<open>A sample engine and sample upstreams\<close>

text \<open>
  Stand-ins for the engine, used to run the handlers on concrete inputs. Each agrees with
  the engine on the values listed and is a placeholder elsewhere: exact arithmetic on
  finite numbers (with the IEEE results of a division by zero), the printed form of a few
  small numbers, the \<^verbatim>\<open>ko-KR\<close> rendering of 12:00:00 and 12:00:01 UTC on the first day of
  the epoch, and \<^verbatim>\<open>encodeURIComponent\<close> on strings of unreserved
  characters (which it leaves as they are).
\<close>

definition sample_arith :: "(rat \<Rightarrow> rat \<Rightarrow> rat) \<Rightarrow> number \<Rightarrow> number \<Rightarrow> number" where
  "sample_arith f a b = (case (a, b) of (Finite x, Finite y) \<Rightarrow> Finite (f x y) | _ \<Rightarrow> NaN)"

definition sample_div :: "number \<Rightarrow> number \<Rightarrow> number" where
  "sample_div a b =
     (case (a, b) of
        (Finite x, Finite y) \<Rightarrow>
          if y \<noteq> 0 then Finite (x / y)
          else if x = 0 then NaN else if 0 < x then PosInfinity else NegInfinity
      | _ \<Rightarrow> NaN)"

definition sample_num_to_string :: "number \<Rightarrow> string" where
  "sample_num_to_string n =
     (case map_of
        [(Finite 0, ''0''), (Finite 1, ''1''), (Finite 2, ''2''), (Finite 3, ''3''),
         (Finite 4, ''4''), (Finite 5, ''5''), (Finite 6, ''6''), (Finite 16, ''16''),
         (Finite 37, ''37''), (Finite 127, ''127''), (Finite 500, ''500''),
         (Finite (5 / 2), ''2.5'')] n of
        Some s \<Rightarrow> s
      | None \<Rightarrow> ''?'')"

definition sample_toLocaleString :: "int \<Rightarrow> string \<Rightarrow> date_options \<Rightarrow> thrown + string" where
  "sample_toLocaleString t locale options =
     (if timeZone options = ''UTC'' \<and> t = 43200000 then Inr ''1970. 01. 01. 12:00:00''
      else if timeZone options = ''UTC'' \<and> t = 43201000 then Inr ''1970. 01. 01. 12:00:01''
      else Inl (Error (''Invalid time zone specified: '' @ timeZone options)))"

definition sample_runtime :: runtime where
  "sample_runtime =
     \<lparr>num_add = sample_arith (+), num_sub = sample_arith (-), num_mul = sample_arith (*),
      num_div = sample_div, num_to_string = sample_num_to_string,
      toLocaleString = sample_toLocaleString, encodeURIComponent = Inr,
      base64 = (\<lambda>bytes. ''AA=='')\<rparr>"

text \<open>
  A world with the given clock and token whose geocoding and forecast services answer every
  request with the given outcome, and whose inference provider rejects every call.
\<close>

definition sample_world ::
  "int \<Rightarrow> string option \<Rightarrow> thrown + geo_record list option response
     \<Rightarrow> thrown + forecast_data response \<Rightarrow> world" where
  "sample_world t token geo forecast =
     \<lparr>clock = t, HF_TOKEN = token, fetch_geocode = (\<lambda>url headers. geo),
      fetch_forecast = (\<lambda>url headers. forecast),
      textToImage = (\<lambda>hfToken request. Inl (Error ''Unauthorized''))\<rparr>"

definition rejects :: "string \<Rightarrow> thrown + 'a response" where
  "rejects message = Inl (Error message)"


definition found :: "'a \<Rightarrow> thrown + 'a response" where
  "found body = Inr \<lparr>status = 200, json = Inr body\<rparr>"

definition seoul :: geo_record where
  "seoul = \<lparr>display_name = ''Seoul, South Korea'', lat = ''37.5666791'', lon = ''126.9782914''\<rparr>"



section \<open>Basic facts about effects and results\<close>


lemma and_then_Inr: "and_then (Inr x, calls) f = (fst (f x), calls @ snd (f x))"
  by (simp add: and_then_def split: prod.splits)


lemma try_catch_Inr: "try_catch (Inr x, calls) h = (Inr x, calls)"
  by (simp add: try_catch_def)

lemma content_success: "content (success e text) = [Text text]"
  by (cases e) (simp_all add: success_def)

lemma content_text_result: "content (text_result text) = [Text text]"
  by (simp add: text_result_def)

lemma returns_text_ret_success: "returns_text (ret (success e text)) text' = (text = text')"
  by (simp add: returns_text_def ret_def content_success)

lemma returns_text_ret_text_result: "returns_text (ret (text_result text)) text' = (text = text')"
  by (simp add: returns_text_def ret_def content_text_result)













lemma returns_text_Inr: "returns_text (Inr r, calls) text = (content r = [Text text])"
  by (simp add: returns_text_def)

lemma try_catch_ret:
  "try_catch m (\<lambda>error. ret (h error)) =
     (Inr (case fst m of Inl err \<Rightarrow> h err | Inr r \<Rightarrow> r), snd m)"
  by (cases m) (simp add: try_catch_def ret_def split: sum.splits)

lemma geocode_try_content:
  "fst (geocode_try e rt w query) = Inr r \<Longrightarrow> length (content r) = 1"
  by (auto simp: geocode_try_def and_then_def lift_def call_def ret_def throw_def Let_def
      content_success content_text_result
      split: sum.splits prod.splits if_splits option.splits list.splits)

lemma get_weather_try_content:
  "fst (get_weather_try e rt w latitude longitude forecast_days) = Inr r \<Longrightarrow> length (content r) = 1"
  by (auto simp: get_weather_try_def and_then_def lift_def call_def ret_def throw_def Let_def
      content_success split: sum.splits prod.splits if_splits)

lemma greet_one_item: "returns_one_item (greet e name language)"
  by (simp add: greet_def returns_one_item_def ret_def content_success)

lemma calc_one_item: "returns_one_item (calc e rt a b operator)"
  by (simp add: calc_def returns_one_item_def ret_def content_success content_text_result
      split: option.splits)

lemma now_one_item: "returns_one_item (now e rt w tz)"
  unfolding now_def try_catch_ret
  by (simp add: returns_one_item_def and_then_def lift_def ret_def content_success
      content_text_result split: sum.splits)

lemma geocode_one_item: "returns_one_item (geocode e rt w query)"
  unfolding geocode_def try_catch_ret
  by (simp add: returns_one_item_def geocode_try_content content_text_result split: sum.splits)

lemma get_weather_one_item: "returns_one_item (get_weather e rt w latitude longitude forecast_days)"
  unfolding get_weather_def try_catch_ret
  by (simp add: returns_one_item_def get_weather_try_content content_text_result
      split: sum.splits)

lemma generate_image_one_item: "returns_one_item (generate_image rt w prompt steps)"
  unfolding generate_image_def try_catch_ret
  by (simp add: returns_one_item_def and_then_def call_def ret_def content_text_result
      split: sum.splits option.splits)











section \<open>The calculator\<close>

text \<open>
  C2. In both files the calc handler returns, for the operators \<^verbatim>\<open>+\<close>, \<^verbatim>\<open>-\<close> and \<^verbatim>\<open>*\<close> and for
  \<^verbatim>\<open>/\<close> with a divisor other than zero, the single text item
  \<^verbatim>\<open>{a} {operator} {b} = {result}\<close>, where the result is the engine's arithmetic applied to
  \<open>a\<close> and \<open>b\<close>; for \<^verbatim>\<open>/\<close> with divisor zero it returns the fixed text of index.ts 108
  ("error: cannot divide by 0.", spelled out below byte for byte), whatever the engine's
  division is, and makes no outbound call.
\<close>

theorem calc_text:
  "returns_text (calc e rt a b Plus)
     (num_to_string rt a @ '' + '' @ num_to_string rt b @ '' = ''
       @ num_to_string rt (num_add rt a b))
   \<and> returns_text (calc e rt a b Minus)
     (num_to_string rt a @ '' - '' @ num_to_string rt b @ '' = ''
       @ num_to_string rt (num_sub rt a b))
   \<and> returns_text (calc e rt a b Times)
     (num_to_string rt a @ '' * '' @ num_to_string rt b @ '' = ''
       @ num_to_string rt (num_mul rt a b))
   \<and> (b \<noteq> Finite 0 \<longrightarrow>
        returns_text (calc e rt a b Divide)
          (num_to_string rt a @ '' / '' @ num_to_string rt b @ '' = ''
            @ num_to_string rt (num_div rt a b)))
   \<and> calc e rt a (Finite 0) Divide = ret (text_result division_by_zero_text)
   \<and> returns_text (calc e rt a (Finite 0) Divide) division_by_zero_text
   \<and> returns_text (calc e rt a (Finite 0) Divide)
     ([CHR 0xEC, CHR 0x98, CHR 0xA4] @ [CHR 0xEB, CHR 0xA5, CHR 0x98] @ '': 0''
       @ [CHR 0xEC, CHR 0x9C, CHR 0xBC] @ [CHR 0xEB, CHR 0xA1, CHR 0x9C] @ '' ''
       @ [CHR 0xEB, CHR 0x82, CHR 0x98] @ [CHR 0xEB, CHR 0x88, CHR 0x8C] @ '' ''
       @ [CHR 0xEC, CHR 0x88, CHR 0x98] @ '' '' @ [CHR 0xEC, CHR 0x97, CHR 0x86]
       @ [CHR 0xEC, CHR 0x8A, CHR 0xB5] @ [CHR 0xEB, CHR 0x8B, CHR 0x88]
       @ [CHR 0xEB, CHR 0x8B, CHR 0xA4] @ ''.'')
   \<and> snd (calc e rt a (Finite 0) Divide) = []"
  by (simp add: calc_def calc_switch_def ret_def returns_text_Inr content_success
      content_text_result division_by_zero_text_def)

theorem calc_text_witness:
  "Finite 3 \<noteq> Finite 0
   \<and> returns_text (calc Route sample_runtime (Finite 6) (Finite 3) Divide) ''6 / 3 = 2''
   \<and> returns_text (calc Index sample_runtime (Finite 6) (Finite 3) Divide) ''6 / 3 = 2''"
  using calc_text [of Route sample_runtime "Finite 6" "Finite 3"]
    calc_text [of Index sample_runtime "Finite 6" "Finite 3"]
  by (simp add: sample_runtime_def sample_div_def sample_num_to_string_def)

section \<open>The geocoder\<close>



section \<open>The clock\<close>

text \<open>
  C7. When the engine renders the current instant for the locale \<^verbatim>\<open>ko-KR\<close> in the given time
  zone, with a numeric year, two-digit month, day, hour, minute and second and the 24-hour
  clock, the now handler returns the single text item \<^verbatim>\<open>[{timezone}] ... : {formatted}\<close> (the
  label reads "current time") and makes no outbound call. The rendering itself is the
  engine's.
\<close>

theorem now_text_of_instant:
  assumes "toLocaleString rt (clock w) ''ko-KR''
      \<lparr>timeZone = tz, year = Numeric, month = TwoDigit, day = TwoDigit, hour = TwoDigit,
       minute = TwoDigit, second = TwoDigit, hour12 = False\<rparr> = Inr formatted"
  shows "returns_text (now e rt w tz)
      (''['' @ tz @ ''] '' @ [CHR 0xED, CHR 0x98, CHR 0x84] @ [CHR 0xEC, CHR 0x9E, CHR 0xAC]
        @ '' '' @ [CHR 0xEC, CHR 0x8B, CHR 0x9C] @ [CHR 0xEA, CHR 0xB0, CHR 0x84] @ '': ''
        @ formatted)
    \<and> snd (now e rt w tz) = []"
  using assms
  by (simp add: now_def now_options_def now_text_def lift_def ret_def and_then_Inr try_catch_Inr
      returns_text_Inr content_success)

theorem now_text_of_instant_witness:
  "returns_text
     (now Index sample_runtime (sample_world 43201000 None (rejects []) (rejects [])) ''UTC'')
     (''[UTC'' @ ''] '' @ [CHR 0xED, CHR 0x98, CHR 0x84] @ [CHR 0xEC, CHR 0x9E, CHR 0xAC]
       @ '' '' @ [CHR 0xEC, CHR 0x8B, CHR 0x9C] @ [CHR 0xEA, CHR 0xB0, CHR 0x84] @ '': ''
       @ ''1970. 01. 01. 12:00:01'')"
  using now_text_of_instant [of sample_runtime
      "sample_world 43201000 None (rejects []) (rejects [])"
      "''UTC''" "''1970. 01. 01. 12:00:01''" Index]
  by (simp add: sample_runtime_def sample_world_def sample_toLocaleString_def)

section \<open>The image generator\<close>

text \<open>
  C6. When \<^verbatim>\<open>HF_TOKEN\<close> is not set (or is the empty string), the generate-image handler of
  both files returns, for every prompt and step count, the single text item that starts
  with the error marker followed by the name \<^verbatim>\<open>HF_TOKEN\<close>, and it makes no outbound call.
\<close>

theorem generate_image_without_token:
  assumes "HF_TOKEN w = None \<or> HF_TOKEN w = Some []"
  shows "generate_image rt w prompt steps = (Inr (text_result missing_token_text), [])
    \<and> returns_text (generate_image rt w prompt steps) missing_token_text
    \<and> snd (generate_image rt w prompt steps) = []
    \<and> missing_token_text = error_marker @ ''HF_TOKEN'' @ drop 16 missing_token_text"
proof -
  from assms have "generate_image rt w prompt steps = (Inr (text_result missing_token_text), [])"
    by (auto simp: generate_image_def ret_def)
  moreover have "missing_token_text = error_marker @ ''HF_TOKEN'' @ drop 16 missing_token_text"
    by (simp add: missing_token_text_def error_marker_def)
  ultimately show ?thesis
    by (simp add: returns_text_Inr content_text_result)
qed

theorem generate_image_without_token_witness:
  "HF_TOKEN (sample_world 0 None (rejects []) (rejects [])) = None
   \<and> generate_image sample_runtime (sample_world 0 None (rejects []) (rejects [])) ''a cat''
        (Finite 4) = (Inr (text_result missing_token_text), [])"
  using generate_image_without_token [of "sample_world 0 None (rejects []) (rejects [])"
      sample_runtime "''a cat''" "Finite 4"]
  by (simp add: sample_world_def)

section \<open>One content item on every path\<close>

text \<open>
  C10. Every handler of both files, for every validated call, every engine and every
  world (so on every return path: success, domain rejection, caught upstream failure),
  returns, and its \<^verbatim>\<open>content\<close> array has exactly one item.
\<close>

theorem one_content_item: "returns_one_item (call_tool e rt w c)"
proof (cases c)
  case (Greet name language)
  then show ?thesis by (simp add: greet_one_item)
next
  case (Calc a b operator)
  then show ?thesis by (simp add: calc_one_item)
next
  case (Now tz)
  then show ?thesis by (simp add: now_one_item)
next
  case (Geocode query)
  then show ?thesis by (simp add: geocode_one_item)
next
  case (GetWeather latitude longitude forecast_days)
  then show ?thesis by (simp add: get_weather_one_item)
next
  case (GenerateImage prompt steps)
  then show ?thesis by (simp add: generate_image_one_item)
qed

section \<open>Failures stay inside the handler\<close>



section \<open>The weather report\<close>






section \<open>Validation of the forecast period\<close>

text \<open>
  The claim C8 as stated, that every \<^verbatim>\<open>forecast_days\<close> that is not an integer in 1-16 fails
  validation with \<open>InvalidArguments\<close>, is false: the schema is
  \<^verbatim>\<open>z.number().min(1).max(16).optional().default(3)\<close> without an integer check, so the
  arguments with \<^verbatim>\<open>forecast_days = 2.5\<close> are valid and the handler is to be called with 2.5.
\<close>

theorem fractional_forecast_days_accepted:
  "(5 / 2 :: rat) \<notin> \<int>
   \<and> parse_arguments ''get-weather''
       [(''latitude'', RNum (Finite 37)), (''longitude'', RNum (Finite 127)),
        (''forecast_days'', RNum (Finite (5 / 2)))] =
     Inr (GetWeather (Finite 37) (Finite 127) (Finite (5 / 2)))"
proof -
  have "(5 / 2 :: rat) \<notin> \<int>"
  proof
    assume "(5 / 2 :: rat) \<in> \<int>"
    then obtain z :: int where "(5 / 2 :: rat) = of_int z"
      by (auto elim: Ints_cases)
    then have "(5 :: rat) = of_int (2 * z)"
      by simp
    then have "(5 :: int) = 2 * z"
      by (metis of_int_eq_iff of_int_numeral)
    then show False
      by presburger
  qed
  then show ?thesis
    by (simp add: parse_arguments_def validated_def both_def field_def
        forecast_days_schema_def z_default_def z_optional_def z_max_def z_min_def z_number_def)
qed

text \<open>
  C8, amended. For the get-weather tool, the validation of the arguments fails with
  \<open>InvalidArguments\<close>, so that no handler is called, for every \<^verbatim>\<open>forecast_days\<close> argument
  that is given and is not a number in the closed interval from 1 to 16 (a value of another
  type, \<^verbatim>\<open>NaN\<close>, an infinity, a number below 1 or above 16). With valid coordinates, a number
  in the interval, integer or not, is passed on as it is in the call the handler receives,
  and when the field is left out that call carries the default 3.
\<close>

theorem forecast_days_validation:
  "(field args ''latitude'' z_number = Inr latitude
      \<and> field args ''longitude'' z_number = Inr longitude
      \<and> (map_of args ''forecast_days'' = None
          \<or> map_of args ''forecast_days'' = Some RUndefined) \<longrightarrow>
      parse_arguments ''get-weather'' args = Inr (GetWeather latitude longitude (Finite 3)))
   \<and> (field args ''latitude'' z_number = Inr latitude
      \<and> field args ''longitude'' z_number = Inr longitude
      \<and> map_of args ''forecast_days'' = Some (RNum (Finite q)) \<and> 1 \<le> q \<and> q \<le> 16 \<longrightarrow>
      parse_arguments ''get-weather'' args = Inr (GetWeather latitude longitude (Finite q)))
   \<and> (map_of args ''forecast_days'' = Some v \<and> v \<noteq> RUndefined
      \<and> (\<forall>x. v = RNum (Finite x) \<longrightarrow> x < 1 \<or> 16 < x) \<longrightarrow>
      (\<exists>issues. parse_arguments ''get-weather'' args = Inl (InvalidArguments issues)
         \<and> ''forecast_days'' \<in> fst ` set issues))"
proof (intro conjI impI)
  assume "field args ''latitude'' z_number = Inr latitude
    \<and> field args ''longitude'' z_number = Inr longitude
    \<and> (map_of args ''forecast_days'' = None \<or> map_of args ''forecast_days'' = Some RUndefined)"
  then show "parse_arguments ''get-weather'' args =
      Inr (GetWeather latitude longitude (Finite 3))"
    by (auto simp: parse_arguments_def validated_def both_def
        field_def [of args "''forecast_days''"] forecast_days_schema_def z_default_def)
next
  assume "field args ''latitude'' z_number = Inr latitude
    \<and> field args ''longitude'' z_number = Inr longitude
    \<and> map_of args ''forecast_days'' = Some (RNum (Finite q)) \<and> 1 \<le> q \<and> q \<le> 16"
  then show "parse_arguments ''get-weather'' args =
      Inr (GetWeather latitude longitude (Finite q))"
    by (simp add: parse_arguments_def validated_def both_def
        field_def [of args "''forecast_days''"] forecast_days_schema_def z_default_def
        z_optional_def z_max_def z_min_def z_number_def)
next
  assume bad: "map_of args ''forecast_days'' = Some v \<and> v \<noteq> RUndefined
    \<and> (\<forall>x. v = RNum (Finite x) \<longrightarrow> x < 1 \<or> 16 < x)"
  have "\<exists>code. forecast_days_schema v = Inl [code]"
  proof (cases v)
    case (RNum n)
    with bad show ?thesis
      by (cases n)
        (auto simp: forecast_days_schema_def z_default_def z_optional_def z_max_def z_min_def
          z_number_def)
  qed (use bad in \<open>simp_all add: forecast_days_schema_def z_default_def z_optional_def
      z_max_def z_min_def z_number_def\<close>)
  then obtain code where "forecast_days_schema v = Inl [code]" ..
  with bad have "field args ''forecast_days'' forecast_days_schema =
      Inl [(''forecast_days'', code)]"
    by (simp add: field_def)
  then show "\<exists>issues. parse_arguments ''get-weather'' args = Inl (InvalidArguments issues)
      \<and> ''forecast_days'' \<in> fst ` set issues"
    by (auto simp: parse_arguments_def validated_def both_def split: sum.splits)
qed

theorem forecast_days_validation_witness:
  "parse_arguments ''get-weather''
       [(''latitude'', RNum (Finite 37)), (''longitude'', RNum (Finite 127))] =
     Inr (GetWeather (Finite 37) (Finite 127) (Finite 3))
   \<and> parse_arguments ''get-weather''
       [(''latitude'', RNum (Finite 37)), (''longitude'', RNum (Finite 127)),
        (''forecast_days'', RNum (Finite 16))] =
     Inr (GetWeather (Finite 37) (Finite 127) (Finite 16))
   \<and> (\<exists>issues. parse_arguments ''get-weather''
       [(''latitude'', RNum (Finite 37)), (''longitude'', RNum (Finite 127)),
        (''forecast_days'', RNum (Finite 17))] = Inl (InvalidArguments issues))
   \<and> (\<exists>issues. parse_arguments ''get-weather''
       [(''latitude'', RNum (Finite 37)), (''longitude'', RNum (Finite 127)),
        (''forecast_days'', RStr ''3'')] = Inl (InvalidArguments issues))"
  using
    forecast_days_validation [of
      "[(''latitude'', RNum (Finite 37)), (''longitude'', RNum (Finite 127))]"
      "Finite 37" "Finite 127" 16 RNull]
    forecast_days_validation [of
      "[(''latitude'', RNum (Finite 37)), (''longitude'', RNum (Finite 127)),
        (''forecast_days'', RNum (Finite 16))]"
      "Finite 37" "Finite 127" 16 RNull]
    forecast_days_validation [of
      "[(''latitude'', RNum (Finite 37)), (''longitude'', RNum (Finite 127)),
        (''forecast_days'', RNum (Finite 17))]"
      "Finite 37" "Finite 127" 16 "RNum (Finite 17)"]
    forecast_days_validation [of
      "[(''latitude'', RNum (Finite 37)), (''longitude'', RNum (Finite 127)),
        (''forecast_days'', RStr ''3'')]"
      "Finite 37" "Finite 127" 16 "RStr ''3''"]
  by (auto simp: field_def z_number_def)

section \<open>Two runs\<close>

text \<open>
  The claim C9 as stated, that two runs of a handler with the same input and the same
  upstream responses give the same output, fails for the now handler, which reads the
  clock: one second apart, with the same time zone and the same upstreams, the texts differ.
\<close>

theorem now_differs_between_instants:
  "fetch_geocode (sample_world 43200000 None (rejects []) (rejects [])) =
     fetch_geocode (sample_world 43201000 None (rejects []) (rejects []))
   \<and> fetch_forecast (sample_world 43200000 None (rejects []) (rejects [])) =
     fetch_forecast (sample_world 43201000 None (rejects []) (rejects []))
   \<and> textToImage (sample_world 43200000 None (rejects []) (rejects [])) =
     textToImage (sample_world 43201000 None (rejects []) (rejects []))
   \<and> returns_text
       (call_tool Index sample_runtime (sample_world 43200000 None (rejects []) (rejects []))
          (Now ''UTC''))
       (''[UTC'' @ ''] '' @ [CHR 0xED, CHR 0x98, CHR 0x84] @ [CHR 0xEC, CHR 0x9E, CHR 0xAC]
         @ '' '' @ [CHR 0xEC, CHR 0x8B, CHR 0x9C] @ [CHR 0xEA, CHR 0xB0, CHR 0x84] @ '': ''
         @ ''1970. 01. 01. 12:00:00'')
   \<and> returns_text
       (call_tool Index sample_runtime (sample_world 43201000 None (rejects []) (rejects []))
          (Now ''UTC''))
       (''[UTC'' @ ''] '' @ [CHR 0xED, CHR 0x98, CHR 0x84] @ [CHR 0xEC, CHR 0x9E, CHR 0xAC]
         @ '' '' @ [CHR 0xEC, CHR 0x8B, CHR 0x9C] @ [CHR 0xEA, CHR 0xB0, CHR 0x84] @ '': ''
         @ ''1970. 01. 01. 12:00:01'')
   \<and> call_tool Index sample_runtime (sample_world 43200000 None (rejects []) (rejects []))
       (Now ''UTC'') \<noteq>
     call_tool Index sample_runtime (sample_world 43201000 None (rejects []) (rejects []))
       (Now ''UTC'')"
  by (simp add: sample_world_def sample_runtime_def sample_toLocaleString_def now_def
      now_options_def now_text_def lift_def ret_def and_then_Inr try_catch_Inr returns_text_Inr
      success_def)

text \<open>
  C9, amended. Two runs of a handler with the same validated input, the same engine and
  the same upstream services give the same result and the same outbound calls, provided
  the clock reads the same instant when the tool is now and \<^verbatim>\<open>HF_TOKEN\<close> is the same when the
  tool is generate-image. The clock and the environment may differ for the other tools.
\<close>

theorem same_inputs_same_output:
  assumes "fetch_geocode w1 = fetch_geocode w2"
    and "fetch_forecast w1 = fetch_forecast w2"
    and "textToImage w1 = textToImage w2"
    and "reads_clock c \<longrightarrow> clock w1 = clock w2"
    and "reads_environment c \<longrightarrow> HF_TOKEN w1 = HF_TOKEN w2"
  shows "call_tool e rt w1 c = call_tool e rt w2 c"
  using assms
  by (cases c)
    (simp_all add: greet_def calc_def now_def geocode_def geocode_try_def get_weather_def
      get_weather_try_def generate_image_def split: option.splits)

theorem same_inputs_same_output_witness:
  "clock (sample_world 0 None (found (Some [seoul])) (rejects [])) \<noteq>
     clock (sample_world 1000 (Some ''hf_x'') (found (Some [seoul])) (rejects []))
   \<and> call_tool Index sample_runtime (sample_world 0 None (found (Some [seoul])) (rejects []))
       (Geocode ''Seoul'') =
     call_tool Index sample_runtime
       (sample_world 1000 (Some ''hf_x'') (found (Some [seoul])) (rejects []))
       (Geocode ''Seoul'')
   \<and> call_tool Index sample_runtime (sample_world 0 None (found (Some [seoul])) (rejects []))
       (Now ''UTC'') =
     call_tool Index sample_runtime
       (sample_world 0 (Some ''hf_x'') (found (Some [seoul])) (rejects []))
       (Now ''UTC'')"
  using
    same_inputs_same_output [of "sample_world 0 None (found (Some [seoul])) (rejects [])"
      "sample_world 1000 (Some ''hf_x'') (found (Some [seoul])) (rejects [])"
      "Geocode ''Seoul''" Index sample_runtime]
    same_inputs_same_output [of "sample_world 0 None (found (Some [seoul])) (rejects [])"
      "sample_world 0 (Some ''hf_x'') (found (Some [seoul])) (rejects [])"
      "Now ''UTC''" Index sample_runtime]
  by (simp add: sample_world_def)

end
